theory Spec2Isabelle
  imports Complex_Main
begin

section \<open>The memory\_notes table\<close>

text \<open>
  The edge functions and the SQL functions of the repository all work on the table
  \<open>memory_notes\<close>. A row is a record; a column that the migrations leave nullable is an
  \<open>option\<close>, with \<open>None\<close> for SQL NULL. The table is the list of its rows, in the order
  a sequential scan yields them.
\<close>

type_synonym uuid = string
type_synonym vector = "real list"
type_synonym tsvector = string
type_synonym timestamptz = int

record memory_note =
  note_id :: uuid
  workspace_id :: "uuid option"
  content :: "string option"
  summary :: "string option"
  source :: "string option"
  tags :: "string list option"
  symbols :: "string list option"
  run_id :: "uuid option"
  metadata :: "string option"
  memory_type :: "string option"
  category :: "string option"
  importance :: "string option"
  importance_score :: "real option"
  embedding :: "vector option"
  content_tsvector :: "tsvector option"
  archived :: "bool option"
  protection_level :: "int option"
  created_at :: "timestamptz option"
  updated_at :: "timestamptz option"

text \<open>
  The cosine distance \<open>a <=> b\<close> that pgvector supplies is a parameter of the model.
\<close>

record pg_ops =
  cosine_dist :: "vector \<Rightarrow> vector \<Rightarrow> real"

text \<open>
  pgvector's cosine distance is one minus the cosine of the angle between the vectors.
\<close>

definition inner_product :: "vector \<Rightarrow> vector \<Rightarrow> real" where
  "inner_product a b = sum_list (map2 (*) a b)"

definition cosine_distance :: "vector \<Rightarrow> vector \<Rightarrow> real" where
  "cosine_distance a b =
     1 - inner_product a b / sqrt (inner_product a a * inner_product b b)"

text \<open>
  The errors of the store, with their SQLSTATE: a negative LIMIT (2201W), an INTEGER
  overflow (22003), an argument that is no INTEGER (22P02), an operator that does not
  exist for the operand types (42883), a query whose columns do not have the types the
  function declares (42804), and any other failure of the store.
\<close>

datatype sql_error = Negative_Limit | Integer_Out_Of_Range | Invalid_Argument
  | Undefined_Function | Datatype_Mismatch | Store_Error

section \<open>hybrid\_search\_memories\<close>

text \<open>
  Migration 20251125000001. The function is written in PL/pgSQL and returns its rows with
  \<open>RETURN QUERY\<close>, which demands that each column of the query has exactly the type that
  \<open>RETURNS TABLE\<close> declares for it, and raises 42804 before the first row when one does
  not. So the model is the typing of the query: the types of PostgreSQL that occur, the
  expressions of the select list, and the rules that give an expression its type.
\<close>

datatype sql_type = T_uuid | T_text | T_text_array | T_boolean | T_integer | T_numeric
  | T_real | T_double_precision | T_timestamptz | T_vector | T_tsvector | T_tsquery

datatype expr = Column string
  | Parameter string
  | Integer_Literal int
  | Plus expr expr
  | Minus expr expr
  | Times expr expr
  | Divide expr expr
  | COALESCE expr expr
  | NULLIF expr expr
  | Plainto_tsquery expr
  | Ts_rank_cd expr expr
  | Cosine_Distance expr expr

text \<open>
  The columns of \<open>memory_notes\<close> that the function reads, with the types the schema
  notes of the repository give them.
\<close>

definition column_types :: "(string \<times> sql_type) list" where
  "column_types =
     [(''id'', T_uuid), (''workspace_id'', T_uuid), (''content'', T_text),
      (''summary'', T_text), (''memory_type'', T_text), (''category'', T_text),
      (''symbols'', T_text_array), (''importance_score'', T_real),
      (''embedding'', T_vector), (''content_tsvector'', T_tsvector),
      (''archived'', T_boolean), (''created_at'', T_timestamptz)]"

text \<open>The parameters of the function, with the types of its signature.\<close>

definition parameter_types :: "(string \<times> sql_type) list" where
  "parameter_types =
     [(''query_text'', T_text), (''query_embedding'', T_vector),
      (''match_workspace_id'', T_uuid), (''limit_count'', T_integer),
      (''bm25_weight'', T_real), (''vector_weight'', T_real), (''min_importance'', T_real)]"


definition default_bm25_weight :: real where
  "default_bm25_weight = 10066330 / 33554432"

definition default_vector_weight :: real where
  "default_vector_weight = 11744051 / 16777216"


text \<open>
  The numeric types in the order of their implicit casts: integer, numeric, real and
  double precision.
\<close>

fun numeric_rank :: "sql_type \<Rightarrow> nat option" where
  "numeric_rank T_integer = Some 0"
| "numeric_rank T_numeric = Some 1"
| "numeric_rank T_real = Some 2"
| "numeric_rank T_double_precision = Some 3"
| "numeric_rank t = None"

text \<open>
  The type of \<open>a + b\<close>, \<open>a - b\<close>, \<open>a * b\<close> and \<open>a / b\<close>: integer for two integers, numeric
  when integer and numeric meet, real for two reals, and double precision for every other
  pair of numeric types (the operator chosen is the one on double precision, the preferred
  type). There is no such operator when an operand is not numeric.
\<close>

definition arithmetic :: "sql_type \<Rightarrow> sql_type \<Rightarrow> sql_type option" where
  "arithmetic a b =
     (case (numeric_rank a, numeric_rank b) of
        (Some i, Some j) \<Rightarrow>
          Some (if i = 0 \<and> j = 0 then T_integer
                else if i \<le> 1 \<and> j \<le> 1 then T_numeric
                else if i = 2 \<and> j = 2 then T_real
                else T_double_precision)
      | _ \<Rightarrow> None)"

text \<open>
  The type of \<open>COALESCE(a, b)\<close>: the common type of the two, which for numeric types is
  the later one in the order of the implicit casts.
\<close>

definition common_type :: "sql_type \<Rightarrow> sql_type \<Rightarrow> sql_type option" where
  "common_type a b =
     (if a = b then Some a
      else case (numeric_rank a, numeric_rank b) of
             (Some i, Some j) \<Rightarrow> Some (if j \<le> i then a else b)
           | _ \<Rightarrow> None)"

text \<open>
  The type of \<open>NULLIF(a, b)\<close>: the type that \<open>a\<close> has as the left operand of \<open>a = b\<close>,
  which is its own type unless the comparison promotes an integer or numeric \<open>a\<close> to the
  type of a wider \<open>b\<close>.
\<close>

definition nullif_type :: "sql_type \<Rightarrow> sql_type \<Rightarrow> sql_type option" where
  "nullif_type a b =
     (case (numeric_rank a, numeric_rank b) of
        (Some i, Some j) \<Rightarrow>
          Some (if j \<le> i \<or> 2 \<le> i then a
                else if j = 1 then T_numeric else T_double_precision)
      | _ \<Rightarrow> if a = b then Some a else None)"

text \<open>
  The type of an expression; \<open>None\<close> when a column, function or operator does not exist
  for the types of its operands. \<open>plainto_tsquery\<close> is called with the configuration
  \<open>english\<close> and a text, \<open>ts_rank_cd\<close> returns real, and pgvector's \<open><=>\<close> returns double
  precision.
\<close>

fun type_of :: "expr \<Rightarrow> sql_type option" where
  "type_of (Column c) = map_of column_types c"
| "type_of (Parameter p) = map_of parameter_types p"
| "type_of (Integer_Literal n) = Some T_integer"
| "type_of (Plus a b) =
     (case (type_of a, type_of b) of (Some s, Some t) \<Rightarrow> arithmetic s t | _ \<Rightarrow> None)"
| "type_of (Minus a b) =
     (case (type_of a, type_of b) of (Some s, Some t) \<Rightarrow> arithmetic s t | _ \<Rightarrow> None)"
| "type_of (Times a b) =
     (case (type_of a, type_of b) of (Some s, Some t) \<Rightarrow> arithmetic s t | _ \<Rightarrow> None)"
| "type_of (Divide a b) =
     (case (type_of a, type_of b) of (Some s, Some t) \<Rightarrow> arithmetic s t | _ \<Rightarrow> None)"
| "type_of (COALESCE a b) =
     (case (type_of a, type_of b) of (Some s, Some t) \<Rightarrow> common_type s t | _ \<Rightarrow> None)"
| "type_of (NULLIF a b) =
     (case (type_of a, type_of b) of (Some s, Some t) \<Rightarrow> nullif_type s t | _ \<Rightarrow> None)"
| "type_of (Plainto_tsquery a) =
     (if type_of a = Some T_text then Some T_tsquery else None)"
| "type_of (Ts_rank_cd a b) =
     (if type_of a = Some T_tsvector \<and> type_of b = Some T_tsquery then Some T_real else None)"
| "type_of (Cosine_Distance a b) =
     (if type_of a = Some T_vector \<and> type_of b = Some T_vector
      then Some T_double_precision else None)"

text \<open>
  The expressions of the query. \<open>bm25_scores.score\<close> and \<open>vector_scores.score\<close>:
\<close>

definition bm25_score_cte :: expr where
  "bm25_score_cte =
     Ts_rank_cd (Column ''content_tsvector'') (Plainto_tsquery (Parameter ''query_text''))"

definition vector_score_cte :: expr where
  "vector_score_cte =
     Minus (Integer_Literal 1)
       (Cosine_Distance (Column ''embedding'') (Parameter ''query_embedding''))"

text \<open>
  The CTE \<open>combined\<close>: \<open>COALESCE(b.score, 0) * bm25_weight\<close> and
  \<open>COALESCE(v.score, 0) * vector_weight\<close>.
\<close>

definition weighted_bm25 :: expr where
  "weighted_bm25 = Times (COALESCE bm25_score_cte (Integer_Literal 0)) (Parameter ''bm25_weight'')"

definition weighted_vector :: expr where
  "weighted_vector =
     Times (COALESCE vector_score_cte (Integer_Literal 0)) (Parameter ''vector_weight'')"

text \<open>The three computed columns of the final SELECT.\<close>

definition bm25_score :: expr where
  "bm25_score = Divide weighted_bm25 (NULLIF (Parameter ''bm25_weight'') (Integer_Literal 0))"

definition vector_score :: expr where
  "vector_score =
     Divide weighted_vector (NULLIF (Parameter ''vector_weight'') (Integer_Literal 0))"

definition hybrid_score :: expr where
  "hybrid_score = Times (Plus weighted_bm25 weighted_vector) (Column ''importance_score'')"

text \<open>The select list.\<close>

definition select_list :: "(string \<times> expr) list" where
  "select_list =
     [(''id'', Column ''id''), (''content'', Column ''content''),
      (''summary'', Column ''summary''), (''memory_type'', Column ''memory_type''),
      (''category'', Column ''category''), (''symbols'', Column ''symbols''),
      (''importance_score'', Column ''importance_score''),
      (''bm25_score'', bm25_score), (''vector_score'', vector_score),
      (''hybrid_score'', hybrid_score), (''created_at'', Column ''created_at'')]"

text \<open>\<open>RETURNS TABLE\<close>: the columns the function declares.\<close>

definition returns_table :: "(string \<times> sql_type) list" where
  "returns_table =
     [(''id'', T_uuid), (''content'', T_text), (''summary'', T_text),
      (''memory_type'', T_text), (''category'', T_text), (''symbols'', T_text_array),
      (''importance_score'', T_real), (''bm25_score'', T_real), (''vector_score'', T_real),
      (''hybrid_score'', T_real), (''created_at'', T_timestamptz)]"

text \<open>The types of the columns of the query, when every expression has one.\<close>

definition query_column_types :: "sql_type list option" where
  "query_column_types = those (map (\<lambda>c. type_of (snd c)) select_list)"

text \<open>
  The columns, counted from 1, whose type is not the declared one; PostgreSQL names the
  first of them in the detail of the error.
\<close>

definition mismatched_columns :: "sql_type list \<Rightarrow> nat list" where
  "mismatched_columns ts =
     map (\<lambda>i. i + 1) (filter (\<lambda>i. ts ! i \<noteq> snd (returns_table ! i)) [0..<length returns_table])"

text \<open>An INTEGER has 32 bits.\<close>

definition int4 :: "int \<Rightarrow> bool" where
  "int4 n = (- 2147483648 \<le> n \<and> n \<le> 2147483647)"

text \<open>
  A call of the function; \<open>limit_count\<close> may be NULL. The statement is analysed and
  planned, then \<open>RETURN QUERY\<close> compares the columns of the query with the declared ones
  and raises 42804 when they differ in number or in a type, and only after that would the
  query run. PL/pgSQL plans the statement with the arguments as constants (a custom plan)
  in the first executions of a session, and may run it from a generic plan later: a custom
  plan folds \<open>limit_count * 2\<close> while planning and raises 22003 when the product is no
  INTEGER. What the query would yield once it ran (its rows, or an error such as that of a
  negative LIMIT) is the parameter \<open>run\<close>, a function of the table and of the arguments.
\<close>

definition hybrid_search_memories ::
  "(memory_note list \<Rightarrow> string \<Rightarrow> vector \<Rightarrow> uuid \<Rightarrow> int option \<Rightarrow> real \<Rightarrow> real \<Rightarrow> real
       \<Rightarrow> sql_error + 'row list)
     \<Rightarrow> bool \<Rightarrow> memory_note list \<Rightarrow> string \<Rightarrow> vector \<Rightarrow> uuid \<Rightarrow> int option
     \<Rightarrow> real \<Rightarrow> real \<Rightarrow> real \<Rightarrow> sql_error + 'row list" where
  "hybrid_search_memories run custom_plan tbl query_text query_embedding match_workspace_id
       limit_count bm25_weight vector_weight min_importance =
     (case query_column_types of
        None \<Rightarrow> Inl Undefined_Function
      | Some ts \<Rightarrow>
          if custom_plan \<and> (case limit_count of Some n \<Rightarrow> \<not> int4 (n * 2) | None \<Rightarrow> False)
          then Inl Integer_Out_Of_Range
          else if length ts = length returns_table \<and> mismatched_columns ts = []
          then run tbl query_text query_embedding match_workspace_id
                 limit_count bm25_weight vector_weight min_importance
          else Inl Datatype_Mismatch)"


section \<open>search\_memory\_notes\<close>

text \<open>
  Migration 20251119194601. \<open>archived = false\<close> is not true for a NULL flag, so here a
  row with a NULL flag is left out. \<open>LIMIT NULL\<close> is no limit.
\<close>

record note_match =
  hit_id :: uuid
  hit_workspace_id :: "uuid option"
  hit_content :: "string option"
  hit_source :: "string option"
  hit_tags :: "string list option"
  hit_created_at :: "timestamptz option"
  hit_run_id :: "uuid option"
  hit_metadata :: "string option"
  hit_memory_type :: string
  hit_importance :: string
  similarity :: real

definition coalesce :: "'a option \<Rightarrow> 'a \<Rightarrow> 'a" where
  "coalesce x d = (case x of Some v \<Rightarrow> v | None \<Rightarrow> d)"

definition search_row ::
  "pg_ops \<Rightarrow> vector \<Rightarrow> uuid \<Rightarrow> real \<Rightarrow> memory_note \<Rightarrow> (real \<times> memory_note) option" where
  "search_row pg query_embedding match_workspace_id match_threshold m =
     (case (workspace_id m, embedding m) of
        (Some w, Some e) \<Rightarrow>
          if w = match_workspace_id \<and> archived m = Some False
             \<and> match_threshold < 1 - cosine_dist pg e query_embedding
          then Some (cosine_dist pg e query_embedding, m)
          else None
      | _ \<Rightarrow> None)"

definition select_match :: "real \<times> memory_note \<Rightarrow> note_match" where
  "select_match dm =
     (case dm of (d, m) \<Rightarrow>
       \<lparr>hit_id = note_id m,
        hit_workspace_id = workspace_id m,
        hit_content = content m,
        hit_source = source m,
        hit_tags = tags m,
        hit_created_at = created_at m,
        hit_run_id = run_id m,
        hit_metadata = metadata m,
        hit_memory_type = coalesce (memory_type m) ''insight'',
        hit_importance = coalesce (importance m) ''normal'',
        similarity = 1 - d\<rparr>)"

definition sql_limit :: "int option \<Rightarrow> 'a list \<Rightarrow> sql_error + 'a list" where
  "sql_limit n xs =
     (case n of
        None \<Rightarrow> Inr xs
      | Some k \<Rightarrow> if k < 0 then Inl Negative_Limit else Inr (take (nat k) xs))"

definition search_memory_notes ::
  "pg_ops \<Rightarrow> memory_note list \<Rightarrow> vector \<Rightarrow> uuid \<Rightarrow> real \<Rightarrow> int option
     \<Rightarrow> sql_error + note_match list" where
  "search_memory_notes pg tbl query_embedding match_workspace_id match_threshold match_count =
     (case sql_limit match_count
             (sort_key fst
                (List.map_filter
                   (search_row pg query_embedding match_workspace_id match_threshold) tbl)) of
        Inl e \<Rightarrow> Inl e
      | Inr rows \<Rightarrow> Inr (map select_match rows))"

section \<open>JavaScript values\<close>

text \<open>
  A field of a parsed JSON body is absent (\<open>undefined\<close>), \<open>null\<close> or a value. Numbers
  are IEEE doubles with their three special values; the finite ones are modelled as reals.
\<close>

datatype 'a js_opt = Undefined | Null | Val 'a

datatype js_number = Finite real | NaN | Pos_Infinity | Neg_Infinity

datatype js_value = JS_Undefined | JS_Null | JS_Boolean bool | JS_Number js_number
  | JS_String string | JS_Array "js_value list" | JS_Object "(string \<times> js_value) list"

text \<open>\<open>Math.min\<close> of two numbers: NaN as soon as one argument is NaN.\<close>

fun Math_min :: "js_number \<Rightarrow> js_number \<Rightarrow> js_number" where
  "Math_min NaN y = NaN"
| "Math_min x NaN = NaN"
| "Math_min Neg_Infinity y = Neg_Infinity"
| "Math_min x Neg_Infinity = Neg_Infinity"
| "Math_min Pos_Infinity y = y"
| "Math_min x Pos_Infinity = x"
| "Math_min (Finite a) (Finite b) = Finite (min a b)"

text \<open>The comparison \<open>x > y\<close> of two numbers: false as soon as one is NaN.\<close>

fun js_gt :: "js_number \<Rightarrow> js_number \<Rightarrow> bool" where
  "js_gt NaN y = False"
| "js_gt x NaN = False"
| "js_gt Pos_Infinity y = (y \<noteq> Pos_Infinity)"
| "js_gt x Pos_Infinity = False"
| "js_gt Neg_Infinity y = False"
| "js_gt x Neg_Infinity = True"
| "js_gt (Finite a) (Finite b) = (b < a)"

text \<open>\<open>String.prototype.trim\<close>, on strings of 8-bit characters.\<close>

definition js_space :: "char \<Rightarrow> bool" where
  "js_space c = (c \<in> set [CHR 0x09, CHR 0x0A, CHR 0x0B, CHR 0x0C, CHR 0x0D, CHR 0x20, CHR 0xA0])"

definition trim :: "string \<Rightarrow> string" where
  "trim s = rev (dropWhile js_space (rev (dropWhile js_space s)))"

text \<open>
  The numeric value of a string: 0 for a string of white space, and NaN for a string
  whose first character after the white space cannot begin a numeric literal (a digit, a
  sign, the decimal point or the \<open>I\<close> of \<open>Infinity\<close>). The value of the remaining strings
  is left to the parameter \<open>literal\<close>.
\<close>

definition StringToNumber :: "(string \<Rightarrow> js_number) \<Rightarrow> string \<Rightarrow> js_number" where
  "StringToNumber literal s =
     (case trim s of
        [] \<Rightarrow> Finite 0
      | c # cs \<Rightarrow> if c \<in> set ''0123456789+-.I'' then literal (c # cs) else NaN)"

text \<open>
  An array or object of a parsed JSON body is turned into a number by way of its string:
  an object is \<open>[object Object]\<close>, an array its elements joined by commas, with the empty
  string for \<open>null\<close> and \<open>undefined\<close>. An object with a key \<open>toString\<close> of its own has no
  string: the key hides the function of that name, and the conversion throws a TypeError.
  The same holds for an array that holds such an object.
\<close>

fun no_primitive :: "js_value \<Rightarrow> bool" where
  "no_primitive (JS_Object props) = (''toString'' \<in> set (map fst props))"
| "no_primitive (JS_Array xs) = list_ex no_primitive xs"
| "no_primitive v = False"

text \<open>
  The number of a value that has a primitive: an array of two or more elements is NaN, and
  an array of one element has the value of that element's string.
\<close>

fun number_value :: "(string \<Rightarrow> js_number) \<Rightarrow> js_value \<Rightarrow> js_number" where
  "number_value literal JS_Undefined = NaN"
| "number_value literal JS_Null = Finite 0"
| "number_value literal (JS_Boolean b) = (if b then Finite 1 else Finite 0)"
| "number_value literal (JS_Number n) = n"
| "number_value literal (JS_String s) = StringToNumber literal s"
| "number_value literal (JS_Object props) = NaN"
| "number_value literal (JS_Array []) = Finite 0"
| "number_value literal (JS_Array [JS_Undefined]) = Finite 0"
| "number_value literal (JS_Array [JS_Null]) = Finite 0"
| "number_value literal (JS_Array [JS_Boolean b]) = NaN"
| "number_value literal (JS_Array [JS_Number n]) = n"
| "number_value literal (JS_Array [JS_String s]) = StringToNumber literal s"
| "number_value literal (JS_Array [JS_Object props]) = NaN"
| "number_value literal (JS_Array [JS_Array xs]) = number_value literal (JS_Array xs)"
| "number_value literal (JS_Array (x # y # ys)) = NaN"

text \<open>\<open>ToNumber\<close>: the message of the TypeError it throws, or the number.\<close>

definition ToNumber :: "(string \<Rightarrow> js_number) \<Rightarrow> js_value \<Rightarrow> string + js_number" where
  "ToNumber literal v =
     (if no_primitive v then Inl ''Cannot convert object to primitive value''
      else Inr (number_value literal v))"

text \<open>
  A number as an argument of a remote procedure call. \<open>JSON.stringify\<close> writes \<open>null\<close>
  for NaN and the infinities, which the store takes as NULL; a number with a fraction, or
  one written with an exponent (from \<open>1e21\<close> on), is no integer for the store (22P02), and
  an integer outside 32 bits is out of range (22003).
\<close>

definition json_integer :: "js_number \<Rightarrow> sql_error + int option" where
  "json_integer n =
     (case n of
        Finite x \<Rightarrow>
          if of_int \<lfloor>x\<rfloor> = x \<and> \<bar>x\<bar> < 10 ^ 21
          then (if int4 \<lfloor>x\<rfloor> then Inr (Some \<lfloor>x\<rfloor>) else Inl Integer_Out_Of_Range)
          else Inl Invalid_Argument
      | _ \<Rightarrow> Inr None)"

text \<open>\<open>Array.prototype.join\<close> on strings.\<close>

fun join :: "string \<Rightarrow> string list \<Rightarrow> string" where
  "join sep [] = []"
| "join sep [x] = x"
| "join sep (x # y # ys) = x @ sep @ join sep (y # ys)"

text \<open>Truthiness of a string field: absent, null and the empty string are falsy.\<close>

fun truthy :: "string js_opt \<Rightarrow> bool" where
  "truthy (Val s) = (s \<noteq> [])"
| "truthy _ = False"

text \<open>
  Reading the property \<open>message\<close> of a value: a TypeError for \<open>undefined\<close> and \<open>null\<close>
  (\<open>None\<close>), the property of an object, and \<open>undefined\<close> for a value that has none. An
  \<open>Error\<close> is an object with the properties \<open>name\<close> and \<open>message\<close>.
\<close>

fun get_message :: "js_value \<Rightarrow> js_value option" where
  "get_message JS_Undefined = None"
| "get_message JS_Null = None"
| "get_message (JS_Object props) =
     Some (case map_of props ''message'' of Some v \<Rightarrow> v | None \<Rightarrow> JS_Undefined)"
| "get_message v = Some JS_Undefined"

definition new_Error :: "string \<Rightarrow> string \<Rightarrow> js_value" where
  "new_Error name msg = JS_Object [(''name'', JS_String name), (''message'', JS_String msg)]"

datatype http_method = OPTIONS | GET | POST

datatype 'b response = Response (status: nat) (body: 'b)

text \<open>
  An HTTP request to an edge function: its method and what \<open>req.json()\<close> yields, the
  message of the error it throws or the parsed body.
\<close>

datatype 'a request = Request http_method "string + 'a"

section \<open>The edge functions' environment\<close>

text \<open>
  What the handlers read from outside: the two environment variables; what
  \<open>createClient\<close> of supabase-js does with them, which throws for a URL or key it does not
  accept, such as a URL that is no HTTP or HTTPS URL (\<open>Some\<close> is the message of the
  error, \<open>None\<close> a client); the embedding service (\<open>generateEmbedding\<close> yields \<open>null\<close>
  when it fails); the database operators; the clock of the \<open>updated_at\<close> trigger; whether
  the store reports an error for a fetch, an update or a remote procedure call; and the
  value of a numeric literal.
\<close>

record update_data =
  set_content :: "string js_opt"
  set_embedding :: "vector js_opt"
  set_memory_type :: "string js_opt"
  set_importance :: "string js_opt"
  set_tags :: "string list js_opt"
  set_archived :: "bool js_opt"

record edge_env =
  SUPABASE_URL :: "string option"
  SUPABASE_SERVICE_ROLE_KEY :: "string option"
  createClient_error :: "string option"
  generateEmbedding :: "string \<Rightarrow> vector option"
  ops :: pg_ops
  now :: timestamptz
  fetch_fails :: "string \<Rightarrow> bool"
  update_fails :: "string \<Rightarrow> update_data \<Rightarrow> bool"
  rpc_fails :: bool
  numeric_literal :: "string \<Rightarrow> js_number"

definition configured :: "edge_env \<Rightarrow> bool" where
  "configured env =
     (SUPABASE_URL env \<noteq> None \<and> SUPABASE_URL env \<noteq> Some []
      \<and> SUPABASE_SERVICE_ROLE_KEY env \<noteq> None \<and> SUPABASE_SERVICE_ROLE_KEY env \<noteq> Some [])"

section \<open>The memory-search endpoint\<close>

record search_request =
  workspaceId :: "string js_opt"
  query :: "string js_opt"
  limit :: js_value

datatype search_body = No_Body
  | Search_Error string "string option" "note_match list option"
  | Search_Results "note_match list"

fun results :: "search_body \<Rightarrow> note_match list" where
  "results No_Body = []"
| "results (Search_Error e msg rs) = (case rs of None \<Rightarrow> [] | Some xs \<Rightarrow> xs)"
| "results (Search_Results xs) = xs"

text \<open>\<open>limit = 10\<close> in the destructuring: the default replaces an absent field only.\<close>

definition limit_or_default :: "js_value \<Rightarrow> js_value" where
  "limit_or_default l = (case l of JS_Undefined \<Rightarrow> JS_Number (Finite 10) | v \<Rightarrow> v)"

text \<open>\<open>Math.min(limit, 50)\<close>: the message of the TypeError it throws, or the number.\<close>

definition match_count_of :: "edge_env \<Rightarrow> js_value \<Rightarrow> string + js_number" where
  "match_count_of env l =
     (case ToNumber (numeric_literal env) (limit_or_default l) of
        Inl msg \<Rightarrow> Inl msg
      | Inr n \<Rightarrow> Inr (Math_min n (Finite 50)))"

text \<open>\<open>typeof limit === 'number' && limit > 50 ? 0.5 : 0.5\<close>\<close>

definition threshold_of :: "js_value \<Rightarrow> real" where
  "threshold_of l =
     (if (case limit_or_default l of JS_Number n \<Rightarrow> js_gt n (Finite 50) | _ \<Rightarrow> False)
      then 1 / 2 else 1 / 2)"

text \<open>
  \<open>supabase.rpc('search_memory_notes', ...)\<close>: an error of the store, of the argument
  or of the function, or the rows the function returns.
\<close>

definition rpc_search_memory_notes ::
  "edge_env \<Rightarrow> memory_note list \<Rightarrow> vector \<Rightarrow> uuid \<Rightarrow> real \<Rightarrow> js_number
     \<Rightarrow> sql_error + note_match list" where
  "rpc_search_memory_notes env tbl query_embedding ws threshold n =
     (if rpc_fails env then Inl Store_Error
      else case json_integer n of
             Inl e \<Rightarrow> Inl e
           | Inr k \<Rightarrow> search_memory_notes (ops env) tbl query_embedding ws threshold k)"

text \<open>
  The rows of \<open>search_memory_notes\<close> have no column \<open>archived\<close>, so \<open>note.archived\<close> is
  undefined on each of them.
\<close>

definition archived_property :: "note_match \<Rightarrow> bool js_opt" where
  "archived_property note = Undefined"

text \<open>The call of the remote procedure with the match count \<open>n\<close>, and the response.\<close>

definition search_call_stage ::
  "edge_env \<Rightarrow> memory_note list \<Rightarrow> search_request \<Rightarrow> vector \<Rightarrow> js_number
     \<Rightarrow> search_body response" where
  "search_call_stage env tbl r queryEmbedding n =
     (case rpc_search_memory_notes env tbl queryEmbedding
             (case workspaceId r of Val w \<Rightarrow> w | _ \<Rightarrow> []) (threshold_of (limit r)) n of
        Inl e \<Rightarrow> Response 500
          (Search_Error ''DATABASE_ERROR'' (Some ''Database search failed'') (Some []))
      | Inr data \<Rightarrow> Response 200
          (Search_Results (filter (\<lambda>note. archived_property note \<noteq> Val True) data)))"

text \<open>
  From the query embedding to the response. An error that \<open>createClient\<close> or \<open>Math.min\<close>
  throws is caught by the handler's catch clause, which answers 500 with its message.
\<close>

definition search_rpc_stage ::
  "edge_env \<Rightarrow> memory_note list \<Rightarrow> search_request \<Rightarrow> vector \<Rightarrow> search_body response" where
  "search_rpc_stage env tbl r queryEmbedding =
     (if \<not> configured env
      then Response 500
        (Search_Error ''CONFIG_ERROR'' (Some ''Server configuration error'') (Some []))
      else (case createClient_error env of
              Some msg \<Rightarrow> Response 500 (Search_Error msg None (Some []))
            | None \<Rightarrow>
                (case match_count_of env (limit r) of
                   Inl msg \<Rightarrow> Response 500 (Search_Error msg None (Some []))
                 | Inr n \<Rightarrow> search_call_stage env tbl r queryEmbedding n)))"

definition search_embedding_stage ::
  "edge_env \<Rightarrow> memory_note list \<Rightarrow> search_request \<Rightarrow> string \<Rightarrow> search_body response" where
  "search_embedding_stage env tbl r q =
     (case generateEmbedding env q of
        None \<Rightarrow> Response 500
          (Search_Error ''EMBEDDING_FAILED''
             (Some ''Failed to generate embedding for query'') (Some []))
      | Some queryEmbedding \<Rightarrow> search_rpc_stage env tbl r queryEmbedding)"

definition query_required :: "search_body response" where
  "query_required =
     Response 400 (Search_Error ''query is required and must be a non-empty string'' None None)"

definition search_validated ::
  "edge_env \<Rightarrow> memory_note list \<Rightarrow> search_request \<Rightarrow> search_body response" where
  "search_validated env tbl r =
     (if \<not> truthy (workspaceId r)
      then Response 400 (Search_Error ''workspaceId is required'' None None)
      else (case query r of
              Val q \<Rightarrow>
                if q = [] \<or> length (trim q) = 0 then query_required
                else search_embedding_stage env tbl r q
            | Null \<Rightarrow> query_required
            | Undefined \<Rightarrow> query_required))"

definition memory_search ::
  "edge_env \<Rightarrow> memory_note list \<Rightarrow> search_request request \<Rightarrow> search_body response" where
  "memory_search env tbl req =
     (case req of Request verb parsed \<Rightarrow>
       if verb = OPTIONS then Response 200 No_Body
       else (case parsed of
               Inl msg \<Rightarrow> Response 500 (Search_Error msg None (Some []))
             | Inr r \<Rightarrow> search_validated env tbl r))"

section \<open>The memory-update endpoint\<close>

text \<open>
  \<open>supabase/functions/memory-update/index.ts\<close>. The fields of the body are modelled at
  the types of the columns they are written to; each may be absent or null.
\<close>

record update_request =
  noteId :: "string js_opt"
  content_in :: "string js_opt"
  memoryType :: "string js_opt"
  importance_in :: "string js_opt"
  tags_in :: "string list js_opt"
  archived_in :: "bool js_opt"

datatype update_body = No_Content
  | Error_Only string
  | Error_Message string string
  | Success memory_note "string list"
  | Success_Note memory_note

definition validTypes :: "string list" where
  "validTypes = [''insight'', ''rule'', ''warning'', ''todo'', ''bug'', ''profile_change'']"

definition validImportance :: "string list" where
  "validImportance = [''low'', ''normal'', ''high'', ''critical'']"

text \<open>\<open>validTypes.includes(memoryType)\<close>, for a field that is a string.\<close>

fun array_includes :: "string list \<Rightarrow> string js_opt \<Rightarrow> bool" where
  "array_includes xs (Val s) = (s \<in> set xs)"
| "array_includes xs _ = False"

definition empty_update :: update_data where
  "empty_update =
     \<lparr>set_content = Undefined, set_embedding = Undefined, set_memory_type = Undefined,
      set_importance = Undefined, set_tags = Undefined, set_archived = Undefined\<rparr>"

text \<open>
  The content step: the trimmed content is written, and a new embedding when the content
  differs from the stored one and the embedding service delivers. \<open>None\<close> is the early
  return for content that is empty after trimming.
\<close>

definition content_step ::
  "edge_env \<Rightarrow> memory_note \<Rightarrow> string js_opt \<Rightarrow> (update_data \<times> string list) option" where
  "content_step env existingNote c =
     (case c of
        Val text \<Rightarrow>
          (let trimmedContent = trim text in
           if trimmedContent = [] then None
           else if Some trimmedContent \<noteq> content existingNote
           then (case generateEmbedding env trimmedContent of
                   Some newEmbedding \<Rightarrow>
                     Some (empty_update\<lparr>set_content := Val trimmedContent,
                                         set_embedding := Val newEmbedding\<rparr>,
                           [''content'', ''embedding''])
                 | None \<Rightarrow>
                     Some (empty_update\<lparr>set_content := Val trimmedContent\<rparr>, [''content'']))
           else Some (empty_update\<lparr>set_content := Val trimmedContent\<rparr>, [''content'']))
      | Null \<Rightarrow> Some (empty_update, [])
      | Undefined \<Rightarrow> Some (empty_update, []))"

text \<open>The four steps \<open>if (x !== undefined) { updateData.x = x; changedFields.push(..) }\<close>.\<close>

definition other_steps :: "update_request \<Rightarrow> update_data \<times> string list \<Rightarrow> update_data \<times> string list" where
  "other_steps r uc =
     (case uc of (u, changed) \<Rightarrow>
       (u\<lparr>set_memory_type := memoryType r, set_importance := importance_in r,
          set_tags := tags_in r, set_archived := archived_in r\<rparr>,
        changed
        @ (if memoryType r \<noteq> Undefined then [''memory_type''] else [])
        @ (if importance_in r \<noteq> Undefined then [''importance''] else [])
        @ (if tags_in r \<noteq> Undefined then [''tags''] else [])
        @ (if archived_in r \<noteq> Undefined then [''archived''] else [])))"

text \<open>
  The UPDATE statement on one row: a key of \<open>updateData\<close> that is present overwrites the
  column (with NULL for \<open>null\<close>), and the trigger sets \<open>updated_at\<close>.
\<close>

definition assign :: "'a js_opt \<Rightarrow> 'a option \<Rightarrow> 'a option" where
  "assign v old = (case v of Undefined \<Rightarrow> old | Null \<Rightarrow> None | Val x \<Rightarrow> Some x)"

definition apply_update :: "update_data \<Rightarrow> timestamptz \<Rightarrow> memory_note \<Rightarrow> memory_note" where
  "apply_update u t m =
     m\<lparr>content := assign (set_content u) (content m),
       embedding := assign (set_embedding u) (embedding m),
       memory_type := assign (set_memory_type u) (memory_type m),
       importance := assign (set_importance u) (importance m),
       tags := assign (set_tags u) (tags m),
       archived := assign (set_archived u) (archived m),
       updated_at := Some t\<rparr>"

definition update_rows ::
  "string \<Rightarrow> update_data \<Rightarrow> timestamptz \<Rightarrow> memory_note list \<Rightarrow> memory_note list" where
  "update_rows i u t tbl = map (\<lambda>m. if note_id m = i then apply_update u t m else m) tbl"

text \<open>
  From the built \<open>updateData\<close> to the response: the store either reports an error and
  changes nothing, or updates the row.
\<close>

definition update_stage ::
  "edge_env \<Rightarrow> memory_note list \<Rightarrow> string \<Rightarrow> memory_note \<Rightarrow> update_data \<times> string list
     \<Rightarrow> update_body response \<times> memory_note list" where
  "update_stage env tbl i existingNote uc =
     (case uc of (updateData, changedFields) \<Rightarrow>
       if update_fails env i updateData
       then (Response 500 (Error_Message ''DATABASE_ERROR'' ''Failed to update memory note''), tbl)
       else (Response 200
               (Success (apply_update updateData (now env) existingNote) changedFields),
             update_rows i updateData (now env) tbl))"

definition build_stage ::
  "edge_env \<Rightarrow> memory_note list \<Rightarrow> update_request \<Rightarrow> string \<Rightarrow> memory_note
     \<Rightarrow> update_body response \<times> memory_note list" where
  "build_stage env tbl r i existingNote =
     (case content_step env existingNote (content_in r) of
        None \<Rightarrow>
          (Response 400 (Error_Message ''VALIDATION_ERROR'' ''Content cannot be empty''), tbl)
      | Some uc \<Rightarrow> update_stage env tbl i existingNote (other_steps r uc))"

text \<open>
  From the validated request to the fetched note. An error that \<open>createClient\<close> throws is
  caught by the handler's catch clause, which answers 500 with its message and writes
  nothing. \<open>.select('*').eq('id', noteId).maybeSingle()\<close>: an error of the store, also
  when more than one row has the id; no row; or the one row.
\<close>

definition fetch_stage ::
  "edge_env \<Rightarrow> memory_note list \<Rightarrow> update_request \<Rightarrow> string
     \<Rightarrow> update_body response \<times> memory_note list" where
  "fetch_stage env tbl r i =
     (if \<not> configured env
      then (Response 500 (Error_Message ''CONFIG_ERROR'' ''Server configuration error''), tbl)
      else (case createClient_error env of
              Some msg \<Rightarrow> (Response 500 (Error_Only msg), tbl)
            | None \<Rightarrow>
                if fetch_fails env i
                then (Response 500
                        (Error_Message ''DATABASE_ERROR'' ''Failed to fetch note for update''), tbl)
                else (case filter (\<lambda>m. note_id m = i) tbl of
                        [] \<Rightarrow> (Response 404 (Error_Message ''NOT_FOUND'' ''Note not found''), tbl)
                      | [existingNote] \<Rightarrow> build_stage env tbl r i existingNote
                      | _ \<Rightarrow> (Response 500
                                (Error_Message ''DATABASE_ERROR''
                                   ''Failed to fetch note for update''), tbl))))"

definition update_validated ::
  "edge_env \<Rightarrow> memory_note list \<Rightarrow> update_request \<Rightarrow> update_body response \<times> memory_note list" where
  "update_validated env tbl r =
     (if \<not> truthy (noteId r)
      then (Response 400 (Error_Only ''noteId is required''), tbl)
      else if truthy (memoryType r) \<and> \<not> array_includes validTypes (memoryType r)
      then (Response 400
              (Error_Only (''Invalid memory_type. Must be one of: '' @ join '', '' validTypes)), tbl)
      else if truthy (importance_in r) \<and> \<not> array_includes validImportance (importance_in r)
      then (Response 400
              (Error_Only (''Invalid importance. Must be one of: '' @ join '', '' validImportance)),
            tbl)
      else fetch_stage env tbl r (case noteId r of Val i \<Rightarrow> i | _ \<Rightarrow> []))"

text \<open>The handler: the response and the table it leaves behind.\<close>

definition memory_update ::
  "edge_env \<Rightarrow> memory_note list \<Rightarrow> update_request request
     \<Rightarrow> update_body response \<times> memory_note list" where
  "memory_update env tbl req =
     (case req of Request verb parsed \<Rightarrow>
       if verb = OPTIONS then (Response 200 No_Content, tbl)
       else (case parsed of
               Inl msg \<Rightarrow> (Response 500 (Error_Only msg), tbl)
             | Inr r \<Rightarrow> update_validated env tbl r))"

subsection \<open>The earlier version of the handler\<close>

text \<open>
  \<open>src/unnamed/part_001\<close>: the same steps with three differences. The environment
  variables are not checked, so \<open>createClient\<close> receives them as they are and the catch
  clause answers 500 with the message of what it throws; \<open>content.trim()\<close> throws for a
  null content, and content that is empty after trimming is written; every error body has
  the one key \<open>error\<close>, and the success body has no \<open>changedFields\<close>.
\<close>

definition content_step_v1 ::
  "edge_env \<Rightarrow> memory_note \<Rightarrow> string js_opt \<Rightarrow> string + update_data" where
  "content_step_v1 env existingNote c =
     (case c of
        Val text \<Rightarrow>
          if Some (trim text) \<noteq> content existingNote
          then (case generateEmbedding env (trim text) of
                  Some newEmbedding \<Rightarrow>
                    Inr (empty_update\<lparr>set_content := Val (trim text),
                                       set_embedding := Val newEmbedding\<rparr>)
                | None \<Rightarrow> Inr (empty_update\<lparr>set_content := Val (trim text)\<rparr>))
          else Inr (empty_update\<lparr>set_content := Val (trim text)\<rparr>)
      | Null \<Rightarrow> Inl ''Cannot read properties of null (reading 'trim')''
      | Undefined \<Rightarrow> Inr empty_update)"

definition update_stage_v1 ::
  "edge_env \<Rightarrow> memory_note list \<Rightarrow> string \<Rightarrow> memory_note \<Rightarrow> update_data
     \<Rightarrow> update_body response \<times> memory_note list" where
  "update_stage_v1 env tbl i existingNote updateData =
     (if update_fails env i updateData
      then (Response 500 (Error_Only ''Failed to update memory note''), tbl)
      else (Response 200 (Success_Note (apply_update updateData (now env) existingNote)),
            update_rows i updateData (now env) tbl))"

definition build_stage_v1 ::
  "edge_env \<Rightarrow> memory_note list \<Rightarrow> update_request \<Rightarrow> string \<Rightarrow> memory_note
     \<Rightarrow> update_body response \<times> memory_note list" where
  "build_stage_v1 env tbl r i existingNote =
     (case content_step_v1 env existingNote (content_in r) of
        Inl msg \<Rightarrow> (Response 500 (Error_Only msg), tbl)
      | Inr u \<Rightarrow> update_stage_v1 env tbl i existingNote (fst (other_steps r (u, []))))"

definition fetch_stage_v1 ::
  "edge_env \<Rightarrow> memory_note list \<Rightarrow> update_request \<Rightarrow> string
     \<Rightarrow> update_body response \<times> memory_note list" where
  "fetch_stage_v1 env tbl r i =
     (case createClient_error env of
        Some msg \<Rightarrow> (Response 500 (Error_Only msg), tbl)
      | None \<Rightarrow>
          if fetch_fails env i
          then (Response 500 (Error_Only ''Failed to fetch note for update''), tbl)
          else (case filter (\<lambda>m. note_id m = i) tbl of
                  [] \<Rightarrow> (Response 404 (Error_Only ''Note not found''), tbl)
                | [existingNote] \<Rightarrow> build_stage_v1 env tbl r i existingNote
                | _ \<Rightarrow> (Response 500 (Error_Only ''Failed to fetch note for update''), tbl)))"

definition update_validated_v1 ::
  "edge_env \<Rightarrow> memory_note list \<Rightarrow> update_request \<Rightarrow> update_body response \<times> memory_note list" where
  "update_validated_v1 env tbl r =
     (if \<not> truthy (noteId r)
      then (Response 400 (Error_Only ''noteId is required''), tbl)
      else if truthy (memoryType r) \<and> \<not> array_includes validTypes (memoryType r)
      then (Response 400
              (Error_Only (''Invalid memory_type. Must be one of: '' @ join '', '' validTypes)), tbl)
      else if truthy (importance_in r) \<and> \<not> array_includes validImportance (importance_in r)
      then (Response 400
              (Error_Only (''Invalid importance. Must be one of: '' @ join '', '' validImportance)),
            tbl)
      else fetch_stage_v1 env tbl r (case noteId r of Val i \<Rightarrow> i | _ \<Rightarrow> []))"

definition memory_update_v1 ::
  "edge_env \<Rightarrow> memory_note list \<Rightarrow> update_request request
     \<Rightarrow> update_body response \<times> memory_note list" where
  "memory_update_v1 env tbl req =
     (case req of Request verb parsed \<Rightarrow>
       if verb = OPTIONS then (Response 200 No_Content, tbl)
       else (case parsed of
               Inl msg \<Rightarrow> (Response 500 (Error_Only msg), tbl)
             | Inr r \<Rightarrow> update_validated_v1 env tbl r))"

section \<open>The memory:recall handler\<close>

text \<open>
  \<open>registerMemoryHandlers\<close>. The recall engine is the module variable \<open>recallEngine\<close>,
  \<open>null\<close> until \<open>setMemoryServices\<close> sets it; its \<open>recall\<close> method yields a promise, which
  is fulfilled with a result or rejected with the value that was thrown, any value of
  JavaScript. Memories and options are opaque to the handler. The key \<open>error\<close> of a
  result is absent (\<open>None\<close>) or holds a value.
\<close>

datatype 'a promise = Fulfilled 'a | Rejected js_value

record 'm recall_result =
  memories :: "'m list"
  totalFound :: nat
  searchTimeMs :: nat
  usedCache :: bool
  recall_query :: string
  error :: "js_value option"

type_synonym ('m, 'o) RecallEngine = "string \<Rightarrow> string \<Rightarrow> 'o option \<Rightarrow> 'm recall_result promise"

text \<open>
  The handler is an async function: what it returns fulfils its promise and what it throws
  rejects it. The catch clause reads \<open>error.message\<close>, which itself throws a TypeError when
  the caught value is \<open>undefined\<close> or \<open>null\<close>; nothing catches that one.
\<close>

definition memory_recall ::
  "('m, 'o) RecallEngine option \<Rightarrow> string \<Rightarrow> string \<Rightarrow> 'o option \<Rightarrow> 'm recall_result promise" where
  "memory_recall recallEngine q workspace options =
     (case recallEngine of
        None \<Rightarrow>
          Fulfilled \<lparr>memories = [], totalFound = 0, searchTimeMs = 0, usedCache = False,
                     recall_query = q, error = None\<rparr>
      | Some recall \<Rightarrow>
          (case recall q workspace options of
             Fulfilled r \<Rightarrow> Fulfilled r
           | Rejected e \<Rightarrow>
               (case get_message e of
                  None \<Rightarrow>
                    Rejected (new_Error ''TypeError''
                      (if e = JS_Null
                       then ''Cannot read properties of null (reading 'message')''
                       else ''Cannot read properties of undefined (reading 'message')''))
                | Some msg \<Rightarrow>
                    Fulfilled \<lparr>memories = [], totalFound = 0, searchTimeMs = 0,
                               usedCache = False, recall_query = q, error = Some msg\<rparr>)))"

section \<open>IPC validation\<close>

text \<open>
  An \<open>Error\<close> that a synchronous function throws, and the outcome of a call of such a
  function.
\<close>

record js_error =
  message :: string

datatype 'a outcome = Returns 'a | Throws js_error

text \<open>
  \<open>src/electron/validation/schemas.ts\<close>. A zod schema is what its \<open>safeParse\<close> does:
  the list of issues, or the parsed data. A string schema rejects every value that is not
  a string, and otherwise reports the issue of each check that fails.
\<close>

record zod_issue =
  path :: "string list"
  issue_message :: string

type_synonym 'a zod_schema = "js_value \<Rightarrow> zod_issue list + 'a"

datatype string_check = Min nat string | Max nat string | Uuid string

definition hex_digit :: "char \<Rightarrow> bool" where
  "hex_digit c = (c \<in> set ''0123456789abcdefABCDEF'')"

text \<open>The pattern of zod's \<open>uuid\<close> check: hexadecimal groups of 8, 4, 4, 4 and 12.\<close>

definition uuid_pattern :: "string \<Rightarrow> bool" where
  "uuid_pattern s =
     (length s = 36
      \<and> list_all hex_digit (take 8 s) \<and> s ! 8 = CHR ''-''
      \<and> list_all hex_digit (take 4 (drop 9 s)) \<and> s ! 13 = CHR ''-''
      \<and> list_all hex_digit (take 4 (drop 14 s)) \<and> s ! 18 = CHR ''-''
      \<and> list_all hex_digit (take 4 (drop 19 s)) \<and> s ! 23 = CHR ''-''
      \<and> list_all hex_digit (take 12 (drop 24 s)))"

fun check_issue :: "string \<Rightarrow> string_check \<Rightarrow> zod_issue option" where
  "check_issue s (Min n msg) =
     (if length s < n then Some \<lparr>path = [], issue_message = msg\<rparr> else None)"
| "check_issue s (Max n msg) =
     (if n < length s then Some \<lparr>path = [], issue_message = msg\<rparr> else None)"
| "check_issue s (Uuid msg) =
     (if uuid_pattern s then None else Some \<lparr>path = [], issue_message = msg\<rparr>)"

fun received :: "js_value \<Rightarrow> string" where
  "received JS_Undefined = ''undefined''"
| "received JS_Null = ''null''"
| "received (JS_Boolean b) = ''boolean''"
| "received (JS_Number n) = (if n = NaN then ''nan'' else ''number'')"
| "received (JS_String s) = ''string''"
| "received (JS_Array xs) = ''array''"
| "received (JS_Object kvs) = ''object''"

definition z_string :: "string_check list \<Rightarrow> string zod_schema" where
  "z_string checks data =
     (case data of
        JS_String s \<Rightarrow>
          (case List.map_filter (check_issue s) checks of
             [] \<Rightarrow> Inr s
           | issues \<Rightarrow> Inl issues)
      | JS_Undefined \<Rightarrow> Inl [\<lparr>path = [], issue_message = ''Required''\<rparr>]
      | _ \<Rightarrow> Inl [\<lparr>path = [], issue_message = ''Expected string, received '' @ received data\<rparr>])"

definition MemoryQuerySchema :: "string zod_schema" where
  "MemoryQuerySchema =
     z_string [Min 1 ''String must contain at least 1 character(s)'',
               Max 2000 ''String must contain at most 2000 character(s)'']"

definition WorkspaceIdSchema :: "string zod_schema" where
  "WorkspaceIdSchema = z_string [Uuid ''Invalid uuid'']"

definition validateIPC :: "'a zod_schema \<Rightarrow> js_value \<Rightarrow> string \<Rightarrow> 'a outcome" where
  "validateIPC schema data context =
     (case schema data of
        Inl errors \<Rightarrow>
          Throws \<lparr>message = ''Invalid '' @ context @ '': ''
                     @ join '', '' (map (\<lambda>e. join ''.'' (path e) @ '': '' @ issue_message e) errors)\<rparr>
      | Inr d \<Rightarrow> Returns d)"

section \<open>Concrete tables\<close>

text \<open>
  The tables and requests the functions are evaluated on. Embeddings have 1536 components;
  \<open>axis x\<close> has \<open>x\<close> in the first and zero elsewhere. The operator is pgvector's cosine
  distance.
\<close>

definition axis :: "real \<Rightarrow> vector" where
  "axis x = x # replicate 1535 0"

definition demo_ops :: pg_ops where
  "demo_ops = \<lparr>cosine_dist = cosine_distance\<rparr>"

definition blank_note :: memory_note where
  "blank_note =
     \<lparr>note_id = [], workspace_id = None, content = None, summary = None, source = None,
      tags = None, symbols = None, run_id = None, metadata = None, memory_type = None,
      category = None, importance = None, importance_score = None, embedding = None,
      content_tsvector = None, archived = None, protection_level = None, created_at = None,
      updated_at = None\<rparr>"

definition ws1 :: uuid where
  "ws1 = ''11111111-1111-4111-8111-111111111111''"

definition ws2 :: uuid where
  "ws2 = ''22222222-2222-4222-8222-222222222222''"

definition note_a :: memory_note where
  "note_a = blank_note\<lparr>note_id := ''00000000-0000-4000-8000-00000000000a'',
     workspace_id := Some ws1, content := Some ''Never short gamma into FOMC without a hedge'',
     importance_score := Some (1 / 2), embedding := Some (axis 1),
     content_tsvector := Some ''fomc'', archived := Some False,
     protection_level := Some 2, created_at := Some 100\<rparr>"

definition note_b :: memory_note where
  "note_b = note_a\<lparr>note_id := ''00000000-0000-4000-8000-00000000000b'',
     archived := Some True\<rparr>"

definition note_c :: memory_note where
  "note_c = note_a\<lparr>note_id := ''00000000-0000-4000-8000-00000000000c'',
     workspace_id := Some ws2\<rparr>"

definition note_d :: memory_note where
  "note_d = note_a\<lparr>note_id := ''00000000-0000-4000-8000-00000000000d'',
     importance_score := Some (1 / 10), embedding := None\<rparr>"

definition note_e :: memory_note where
  "note_e = note_a\<lparr>note_id := ''00000000-0000-4000-8000-00000000000e'',
     importance_score := Some 1, content_tsvector := None, archived := None\<rparr>"

definition demo_table :: "memory_note list" where
  "demo_table = [note_b, note_c, note_a, note_d, note_e]"

definition demo_env :: edge_env where
  "demo_env =
     \<lparr>SUPABASE_URL = Some ''https://project.supabase.co'',
      SUPABASE_SERVICE_ROLE_KEY = Some ''service-role-key'',
      createClient_error = None,
      generateEmbedding = (\<lambda>s. Some (axis 1)),
      ops = demo_ops,
      now = 1000,
      fetch_fails = (\<lambda>i. False),
      update_fails = (\<lambda>i u. False),
      rpc_fails = False,
      numeric_literal = (\<lambda>s. NaN)\<rparr>"

definition hit_a :: note_match where
  "hit_a =
     \<lparr>hit_id = ''00000000-0000-4000-8000-00000000000a'', hit_workspace_id = Some ws1,
      hit_content = Some ''Never short gamma into FOMC without a hedge'', hit_source = None,
      hit_tags = None, hit_created_at = Some 100, hit_run_id = None, hit_metadata = None,
      hit_memory_type = ''insight'', hit_importance = ''normal'', similarity = 1\<rparr>"

definition demo_search_request :: "search_request request" where
  "demo_search_request =
     Request POST (Inr \<lparr>workspaceId = Val ws1, query = Val ''fomc'', limit = JS_Undefined\<rparr>)"

text \<open>
  A workspace of sixty notes that all match the query embedding, and a search request
  whose limit is a string that is no number.
\<close>

definition crowd_note :: "nat \<Rightarrow> memory_note" where
  "crowd_note n = note_a\<lparr>note_id := ''00000000-0000-4000-8000-0000000000''
     @ [char_of (48 + n div 10), char_of (48 + n mod 10)]\<rparr>"

definition crowd :: "memory_note list" where
  "crowd = map crowd_note [0..<60]"

definition crowd_request :: "search_request request" where
  "crowd_request =
     Request POST (Inr \<lparr>workspaceId = Val ws1, query = Val ''fomc'', limit = JS_String ''abc''\<rparr>)"




text \<open>
  Recall engines: one whose store is broken and throws an \<open>Error\<close>, one that rejects
  without a reason (\<open>Promise.reject()\<close>), one that rejects with \<open>null\<close>, one that throws a
  string, and one that works.
\<close>

definition failing_engine :: "(memory_note, unit) RecallEngine" where
  "failing_engine q w options = Rejected (new_Error ''Error'' ''database disk image is malformed'')"

definition silent_engine :: "(memory_note, unit) RecallEngine" where
  "silent_engine q w options = Rejected JS_Undefined"

definition null_engine :: "(memory_note, unit) RecallEngine" where
  "null_engine q w options = Rejected JS_Null"

definition string_engine :: "(memory_note, unit) RecallEngine" where
  "string_engine q w options = Rejected (JS_String ''timeout'')"

definition steady_engine :: "(memory_note, unit) RecallEngine" where
  "steady_engine q w options =
     Fulfilled \<lparr>memories = [note_a], totalFound = 1, searchTimeMs = 12, usedCache = False,
                recall_query = q, error = None\<rparr>"

definition empty_result :: "string \<Rightarrow> js_value option \<Rightarrow> memory_note recall_result" where
  "empty_result q e =
     \<lparr>memories = [], totalFound = 0, searchTimeMs = 0, usedCache = False, recall_query = q,
      error = e\<rparr>"

text \<open>
  The note and the requests of the update scenarios: \<open>note_rule\<close> is an IMMUTABLE rule
  (\<open>protection_level = 0\<close>).
\<close>

definition note_rule :: memory_note where
  "note_rule = note_a\<lparr>note_id := ''00000000-0000-4000-8000-0000000000c0'',
     memory_type := Some ''rule'', importance := Some ''critical'', importance_score := Some 1,
     protection_level := Some 0\<rparr>"

definition bare_request :: "string \<Rightarrow> update_request" where
  "bare_request i =
     \<lparr>noteId = Val i, content_in = Undefined, memoryType = Undefined, importance_in = Undefined,
      tags_in = Undefined, archived_in = Undefined\<rparr>"

definition archive_request :: "string \<Rightarrow> update_request" where
  "archive_request i = (bare_request i)\<lparr>archived_in := Val True\<rparr>"

section \<open>Properties of hybrid\_search\_memories\<close>

lemma query_column_types_eq:
  "query_column_types =
     Some [T_uuid, T_text, T_text, T_text, T_text, T_text_array, T_real, T_real,
           T_double_precision, T_double_precision, T_timestamptz]"
  by (simp add: query_column_types_def select_list_def bm25_score_def vector_score_def
      hybrid_score_def weighted_bm25_def weighted_vector_def bm25_score_cte_def
      vector_score_cte_def column_types_def parameter_types_def arithmetic_def
      common_type_def nullif_type_def)

lemma upt_11: "[0..<11] = [0, 1, 2, 3, 4, 5, 6, 7, 8, 9, 10]"
  by (simp add: upt_rec)

lemma mismatched_columns_eq:
  "mismatched_columns
     [T_uuid, T_text, T_text, T_text, T_text, T_text_array, T_real, T_real,
      T_double_precision, T_double_precision, T_timestamptz] = [9, 10]"
  by (simp add: mismatched_columns_def returns_table_def upt_11)

lemma hybrid_search_raises:
  "hybrid_search_memories run custom_plan tbl query_text query_embedding match_workspace_id
       limit_count bm25_weight vector_weight min_importance
     = Inl (if custom_plan \<and> (case limit_count of Some n \<Rightarrow> \<not> int4 (n * 2) | None \<Rightarrow> False)
            then Integer_Out_Of_Range else Datatype_Mismatch)"
  by (simp add: hybrid_search_memories_def query_column_types_eq mismatched_columns_eq)


section \<open>Properties of the endpoints\<close>

subsection \<open>The demonstration table, evaluated\<close>

lemma set_map_filter: "set (List.map_filter f xs) = {y. \<exists>x\<in>set xs. f x = Some y}"
  by (induction xs) (auto simp: map_filter_simps split: option.splits)

lemma map_filter_map: "List.map_filter g (map f xs) = List.map_filter (\<lambda>x. g (f x)) xs"
  by (induction xs) (auto simp: map_filter_simps split: option.splits)

lemma map_filter_Some: "List.map_filter (\<lambda>x. Some (f x)) xs = map f xs"
  by (induction xs) (auto simp: map_filter_simps)

lemma distinct_note_id_eq:
  "distinct (map note_id tbl) \<Longrightarrow> m \<in> set tbl \<Longrightarrow> m' \<in> set tbl \<Longrightarrow> note_id m = note_id m' \<Longrightarrow> m = m'"
  by (meson distinct_map inj_onD)

lemma inner_product_axis: "inner_product (axis x) (axis y) = x * y"
  by (simp add: inner_product_def axis_def zip_replicate sum_list_replicate)

lemma cosine_distance_axis:
  "cosine_distance (axis x) (axis y) = 1 - x * y / sqrt (x * x * (y * y))"
  by (simp add: cosine_distance_def inner_product_axis)

lemma demo_dist_same: "cosine_dist demo_ops (axis 1) (axis 1) = 0"
  by (simp add: demo_ops_def cosine_distance_axis)

lemmas demo_notes =
  demo_table_def note_a_def note_b_def note_c_def note_d_def note_e_def blank_note_def
  ws1_def ws2_def

lemma demo_distinct: "distinct (map note_id demo_table)"
  by (simp add: demo_notes)

lemma demo_client: "createClient_error demo_env = None"
  by (simp add: demo_env_def)

subsection \<open>search\_memory\_notes and the memory-search endpoint\<close>

lemma search_row_SomeD:
  assumes "search_row pg qe ws th m = Some (d, m')"
  shows "m' = m \<and> workspace_id m = Some ws \<and> archived m = Some False
    \<and> (\<exists>e. embedding m = Some e \<and> d = cosine_dist pg e qe \<and> th < 1 - d)"
  using assms by (auto simp: search_row_def split: option.splits if_splits)

lemma sql_limit_subset: "sql_limit n xs = Inr ys \<Longrightarrow> set ys \<subseteq> set xs"
  by (auto simp: sql_limit_def split: option.splits if_splits dest: in_set_takeD)

lemma search_memory_notes_sound:
  assumes "search_memory_notes pg tbl qe ws th mc = Inr hits" and "h \<in> set hits"
  shows "\<exists>m\<in>set tbl. hit_id h = note_id m \<and> workspace_id m = Some ws \<and> archived m = Some False"
proof -
  let ?cands = "sort_key fst (List.map_filter (search_row pg qe ws th) tbl)"
  from assms(1) obtain rows where rows: "sql_limit mc ?cands = Inr rows"
    and hits: "hits = map select_match rows"
    by (auto simp: search_memory_notes_def split: sum.splits)
  from assms(2) hits obtain dm where dm: "dm \<in> set rows" and h: "h = select_match dm" by auto
  obtain d m where dmeq: "dm = (d, m)" by (cases dm)
  from sql_limit_subset[OF rows] dm have "dm \<in> set (List.map_filter (search_row pg qe ws th) tbl)"
    by auto
  then obtain m0 where m0: "m0 \<in> set tbl" "search_row pg qe ws th m0 = Some (d, m)"
    by (auto simp: set_map_filter dmeq)
  from search_row_SomeD[OF m0(2)] m0(1) h dmeq show ?thesis
    by (auto simp: select_match_def)
qed

lemma memory_search_results:
  assumes "h \<in> set (results (body (memory_search env tbl req)))"
  shows "\<exists>qe ws th mc hits. search_memory_notes (ops env) tbl qe ws th mc = Inr hits \<and> h \<in> set hits"
proof -
  obtain verb parsed where req: "req = Request verb parsed" by (cases req)
  show ?thesis
  proof (cases "verb = OPTIONS")
    case True
    with assms req show ?thesis by (simp add: memory_search_def)
  next
    case notopt: False
    show ?thesis
    proof (cases parsed)
      case (Inl msg)
      with assms req notopt show ?thesis by (simp add: memory_search_def)
    next
      case (Inr r)
      with assms req notopt have h: "h \<in> set (results (body (search_validated env tbl r)))"
        by (simp add: memory_search_def)
      then obtain q where h2: "h \<in> set (results (body (search_embedding_stage env tbl r q)))"
        by (auto simp: search_validated_def query_required_def split: if_splits js_opt.splits)
      then obtain qe where h3: "h \<in> set (results (body (search_rpc_stage env tbl r qe)))"
        by (auto simp: search_embedding_stage_def split: option.splits)
      let ?ws = "case workspaceId r of Val w \<Rightarrow> w | _ \<Rightarrow> []"
      from h3 obtain n data where
        d: "rpc_search_memory_notes env tbl qe ?ws (threshold_of (limit r)) n = Inr data"
        and hd: "h \<in> set data"
        by (auto simp: search_rpc_stage_def search_call_stage_def
            split: if_splits sum.splits option.splits)
      from d obtain k where
        "search_memory_notes (ops env) tbl qe ?ws (threshold_of (limit r)) k = Inr data"
        by (auto simp: rpc_search_memory_notes_def split: if_splits sum.splits)
      with hd show ?thesis by blast
    qed
  qed
qed

lemma demo_search_notes:
  "search_memory_notes demo_ops demo_table (axis 1) ws1 (1 / 2) (Some 10) = Inr [hit_a]"
  by (simp add: search_memory_notes_def search_row_def sql_limit_def select_match_def
      coalesce_def demo_notes demo_dist_same map_filter_simps hit_a_def)

lemma demo_match_count: "match_count_of demo_env JS_Undefined = Inr (Finite 10)"
  by (simp add: match_count_of_def limit_or_default_def ToNumber_def)

lemma trim_fomc: "trim ''fomc'' = ''fomc''"
  by (simp add: trim_def js_space_def)

lemma demo_memory_search:
  "memory_search demo_env demo_table demo_search_request = Response 200 (Search_Results [hit_a])"
proof -
  have e: "ops demo_env = demo_ops" "rpc_fails demo_env = False"
    "configured demo_env" "generateEmbedding demo_env ''fomc'' = Some (axis 1)"
    by (simp_all add: demo_env_def configured_def)
  have j: "json_integer (Finite 10) = Inr (Some 10)"
    by (simp add: json_integer_def int4_def)
  have rpc: "rpc_search_memory_notes demo_env demo_table (axis 1) ws1 (1 / 2) (Finite 10)
      = Inr [hit_a]"
    by (simp add: rpc_search_memory_notes_def e j demo_search_notes)
  have w: "ws1 \<noteq> []" by (simp add: ws1_def)
  show ?thesis
    by (simp add: memory_search_def demo_search_request_def search_validated_def
        search_embedding_stage_def search_rpc_stage_def search_call_stage_def e demo_client rpc
        demo_match_count
        threshold_of_def trim_fomc archived_property_def w)
qed


lemma crowd_row:
  "search_row demo_ops (axis 1) ws1 (1 / 2) (crowd_note n) = Some (0, crowd_note n)"
  by (simp add: search_row_def crowd_note_def note_a_def blank_note_def demo_dist_same)

lemma crowd_unlimited:
  "search_memory_notes demo_ops crowd (axis 1) ws1 (1 / 2) None
     = Inr (map select_match (sort_key fst (map (\<lambda>n. (0, crowd_note n)) [0..<60])))"
  by (simp add: search_memory_notes_def sql_limit_def crowd_def map_filter_map crowd_row
      map_filter_Some)

lemma abc_match_count: "match_count_of demo_env (JS_String ''abc'') = Inr NaN"
  by (simp add: match_count_of_def limit_or_default_def ToNumber_def StringToNumber_def trim_def
      js_space_def)

lemma crowd_memory_search:
  "memory_search demo_env crowd crowd_request
     = Response 200 (Search_Results
         (map select_match (sort_key fst (map (\<lambda>n. (0, crowd_note n)) [0..<60]))))"
proof -
  have e: "ops demo_env = demo_ops" "rpc_fails demo_env = False"
    "configured demo_env" "generateEmbedding demo_env ''fomc'' = Some (axis 1)"
    by (simp_all add: demo_env_def configured_def)
  have rpc: "rpc_search_memory_notes demo_env crowd (axis 1) ws1 (1 / 2) NaN
      = Inr (map select_match (sort_key fst (map (\<lambda>n. (0, crowd_note n)) [0..<60])))"
    by (simp add: rpc_search_memory_notes_def e json_integer_def crowd_unlimited)
  have w: "ws1 \<noteq> []" by (simp add: ws1_def)
  show ?thesis
    by (simp add: memory_search_def crowd_request_def search_validated_def
        search_embedding_stage_def search_rpc_stage_def search_call_stage_def e demo_client rpc
        abc_match_count
        threshold_of_def limit_or_default_def trim_fomc archived_property_def w)
qed

subsection \<open>The memory-update endpoint\<close>

lemma trim_changed: "trim ''  Gamma may be shorted into FOMC '' = ''Gamma may be shorted into FOMC''"
  by (simp add: trim_def js_space_def)

lemma join_validTypes:
  "join '', '' validTypes = ''insight, rule, warning, todo, bug, profile_change''"
  by (simp add: validTypes_def)


lemma v1_demo:
  "memory_update_v1 demo_env [note_rule]
        (Request POST (Inr ((archive_request (note_id note_rule))
           \<lparr>content_in := Val ''  Gamma may be shorted into FOMC ''\<rparr>)))
      = (Response 200
           (Success_Note (note_rule\<lparr>content := Some ''Gamma may be shorted into FOMC'',
                               archived := Some True, updated_at := Some 1000\<rparr>)),
         [note_rule\<lparr>content := Some ''Gamma may be shorted into FOMC'',
                     archived := Some True, updated_at := Some 1000\<rparr>])"
proof -
  have e: "now demo_env = 1000"
    "generateEmbedding demo_env ''Gamma may be shorted into FOMC'' = Some (axis 1)"
    "\<And>i. fetch_fails demo_env i = False" "\<And>i u. update_fails demo_env i u = False"
    by (simp_all add: demo_env_def)
  show ?thesis
    by (simp add: memory_update_v1_def update_validated_v1_def fetch_stage_v1_def
        build_stage_v1_def update_stage_v1_def content_step_v1_def other_steps_def
        apply_update_def update_rows_def
        assign_def empty_update_def archive_request_def bare_request_def e demo_client
        trim_changed note_rule_def note_a_def blank_note_def)
qed

subsection \<open>IPC validation\<close>

lemma z_string_accepts:
  "z_string checks data = Inr s \<longleftrightarrow>
     data = JS_String s \<and> List.map_filter (check_issue s) checks = []"
  by (cases data) (auto simp: z_string_def split: list.splits)

lemma validateIPC_Returns: "validateIPC schema data ctx = Returns d \<longleftrightarrow> schema data = Inr d"
  by (auto simp: validateIPC_def split: sum.splits)

lemma uuid_demo: "uuid_pattern ''550e8400-e29b-41d4-a716-446655440000''"
  by code_simp

lemma not_uuid_demo: "\<not> uuid_pattern ''not-a-uuid''"
  by (simp add: uuid_pattern_def)

section \<open>The claims\<close>

text \<open>
  C1. The handler does not protect an IMMUTABLE note: a request to archive the note
  \<open>note_rule\<close>, whose \<open>protection_level\<close> is 0, and to replace its content is answered with
  200 by both versions of memory-update, and the stored note is archived and has the new
  content. Neither version reads \<open>protection_level\<close>.
\<close>

theorem immutable_note_mutated:
  "protection_level note_rule = Some 0 \<and> archived note_rule = Some False
   \<and> memory_update demo_env [note_rule]
        (Request POST (Inr ((archive_request (note_id note_rule))
           \<lparr>content_in := Val ''  Gamma may be shorted into FOMC ''\<rparr>)))
      = (Response 200
           (Success (note_rule\<lparr>content := Some ''Gamma may be shorted into FOMC'',
                               archived := Some True, updated_at := Some 1000\<rparr>)
              [''content'', ''embedding'', ''archived'']),
         [note_rule\<lparr>content := Some ''Gamma may be shorted into FOMC'',
                     archived := Some True, updated_at := Some 1000\<rparr>])
   \<and> memory_update_v1 demo_env [note_rule]
        (Request POST (Inr ((archive_request (note_id note_rule))
           \<lparr>content_in := Val ''  Gamma may be shorted into FOMC ''\<rparr>)))
      = (Response 200
           (Success_Note (note_rule\<lparr>content := Some ''Gamma may be shorted into FOMC'',
                               archived := Some True, updated_at := Some 1000\<rparr>)),
         [note_rule\<lparr>content := Some ''Gamma may be shorted into FOMC'',
                     archived := Some True, updated_at := Some 1000\<rparr>])"
proof -
  have e: "configured demo_env" "now demo_env = 1000"
    "generateEmbedding demo_env ''Gamma may be shorted into FOMC'' = Some (axis 1)"
    "\<And>i. fetch_fails demo_env i = False" "\<And>i u. update_fails demo_env i u = False"
    by (simp_all add: demo_env_def configured_def)
  have cur: "memory_update demo_env [note_rule]
        (Request POST (Inr ((archive_request (note_id note_rule))
           \<lparr>content_in := Val ''  Gamma may be shorted into FOMC ''\<rparr>)))
      = (Response 200
           (Success (note_rule\<lparr>content := Some ''Gamma may be shorted into FOMC'',
                               archived := Some True, updated_at := Some 1000\<rparr>)
              [''content'', ''embedding'', ''archived'']),
         [note_rule\<lparr>content := Some ''Gamma may be shorted into FOMC'',
                     archived := Some True, updated_at := Some 1000\<rparr>])"
    by (simp add: memory_update_def update_validated_def fetch_stage_def build_stage_def
        update_stage_def content_step_def other_steps_def apply_update_def update_rows_def
        assign_def empty_update_def archive_request_def bare_request_def e demo_client
        trim_changed note_rule_def note_a_def blank_note_def Let_def)
  have lvl: "protection_level note_rule = Some 0" "archived note_rule = Some False"
    by (simp_all add: note_rule_def note_a_def blank_note_def)
  from lvl cur v1_demo show ?thesis by blast
qed

text \<open>
  C2. No search result holds an archived record. \<open>hybrid_search_memories\<close> returns no
  row at all: every call of it ends in an error. Every row of \<open>search_memory_notes\<close>, and
  every result of the memory-search endpoint, has the id of a record of the table whose
  archived flag is false; so, ids being unique, a record whose id is on a row has the flag
  false, and a record with \<open>archived = true\<close> is on no row.
\<close>

theorem archived_notes_never_returned:
  assumes "distinct (map note_id tbl)" and "m \<in> set tbl"
  shows "(\<exists>e. hybrid_search_memories run custom_plan tbl query_text query_embedding match_workspace_id
                limit_count bm25_weight vector_weight min_importance = Inl e)
       \<and> (search_memory_notes pg tbl query_embedding match_workspace_id match_threshold
            match_count = Inr hits
          \<longrightarrow> (\<forall>h\<in>set hits. \<exists>n\<in>set tbl. hit_id h = note_id n \<and> archived n = Some False))
       \<and> (\<forall>h\<in>set (results (body (memory_search env tbl req))).
             \<exists>n\<in>set tbl. hit_id h = note_id n \<and> archived n = Some False)
       \<and> (search_memory_notes pg tbl query_embedding match_workspace_id match_threshold
            match_count = Inr hits
          \<longrightarrow> note_id m \<in> hit_id ` set hits \<longrightarrow> archived m = Some False)
       \<and> (note_id m \<in> hit_id ` set (results (body (memory_search env tbl req)))
          \<longrightarrow> archived m = Some False)
       \<and> (archived m = Some True \<longrightarrow>
            (search_memory_notes pg tbl query_embedding match_workspace_id match_threshold
               match_count = Inr hits
             \<longrightarrow> note_id m \<notin> hit_id ` set hits)
          \<and> note_id m \<notin> hit_id ` set (results (body (memory_search env tbl req))))"
proof -
  have hyb: "\<exists>e. hybrid_search_memories run custom_plan tbl query_text query_embedding match_workspace_id
                limit_count bm25_weight vector_weight min_importance = Inl e"
    by (simp add: hybrid_search_raises)
  have same: "m' = m" if "m' \<in> set tbl" "note_id m' = note_id m" for m'
    using distinct_note_id_eq[OF assms(1) that(1) assms(2) that(2)] .
  have snd: "\<exists>n\<in>set tbl. hit_id h = note_id n \<and> archived n = Some False"
    if "search_memory_notes pg' tbl qe ws th mc = Inr hs" "h \<in> set hs" for pg' qe ws th mc hs h
    using search_memory_notes_sound[OF that] by blast
  have esnd: "\<exists>n\<in>set tbl. hit_id h = note_id n \<and> archived n = Some False"
    if h: "h \<in> set (results (body (memory_search env tbl req)))" for h
  proof -
    from memory_search_results[OF h] obtain qe ws th mc hs where
      "search_memory_notes (ops env) tbl qe ws th mc = Inr hs" "h \<in> set hs" by blast
    from snd[OF this] show ?thesis .
  qed
  have srch: "archived m = Some False"
    if res: "search_memory_notes pg tbl query_embedding match_workspace_id match_threshold
            match_count = Inr hits"
      and "note_id m \<in> hit_id ` set hits"
  proof -
    from that(2) obtain h where h: "h \<in> set hits" "note_id m = hit_id h" by auto
    from snd[OF res h(1)] obtain m' where
      "m' \<in> set tbl" "hit_id h = note_id m'" "archived m' = Some False" by blast
    with same[of m'] h(2) show ?thesis by simp
  qed
  have endp: "archived m = Some False"
    if "note_id m \<in> hit_id ` set (results (body (memory_search env tbl req)))"
  proof -
    from that obtain h where h: "h \<in> set (results (body (memory_search env tbl req)))"
      "note_id m = hit_id h" by auto
    from esnd[OF h(1)] obtain m' where
      "m' \<in> set tbl" "hit_id h = note_id m'" "archived m' = Some False" by blast
    with same[of m'] h(2) show ?thesis by simp
  qed
  have c2: "search_memory_notes pg tbl query_embedding match_workspace_id match_threshold
            match_count = Inr hits
          \<longrightarrow> (\<forall>h\<in>set hits. \<exists>n\<in>set tbl. hit_id h = note_id n \<and> archived n = Some False)"
    using snd by blast
  have c3: "\<forall>h\<in>set (results (body (memory_search env tbl req))).
             \<exists>n\<in>set tbl. hit_id h = note_id n \<and> archived n = Some False"
    using esnd by blast
  have c4: "search_memory_notes pg tbl query_embedding match_workspace_id match_threshold
            match_count = Inr hits
          \<longrightarrow> note_id m \<in> hit_id ` set hits \<longrightarrow> archived m = Some False"
    using srch by blast
  have c5: "note_id m \<in> hit_id ` set (results (body (memory_search env tbl req)))
          \<longrightarrow> archived m = Some False"
    using endp by blast
  have c6: "archived m = Some True \<longrightarrow>
            (search_memory_notes pg tbl query_embedding match_workspace_id match_threshold
               match_count = Inr hits
             \<longrightarrow> note_id m \<notin> hit_id ` set hits)
          \<and> note_id m \<notin> hit_id ` set (results (body (memory_search env tbl req)))"
    using srch endp by auto
  from hyb c2 c3 c4 c5 c6 show ?thesis by (intro conjI)
qed

theorem archived_notes_never_returned_witness:
  "distinct (map note_id demo_table) \<and> note_b \<in> set demo_table \<and> archived note_b = Some True
   \<and> search_memory_notes demo_ops demo_table (axis 1) ws1 (1 / 2) (Some 10) = Inr [hit_a]
   \<and> note_id note_b \<notin> hit_id ` set [hit_a]
   \<and> memory_search demo_env demo_table demo_search_request
       = Response 200 (Search_Results [hit_a])
   \<and> note_id note_b \<notin> hit_id ` set (results (body (memory_search demo_env demo_table demo_search_request)))
   \<and> note_a \<in> set demo_table
   \<and> note_id note_a \<in> hit_id ` set [hit_a]
   \<and> note_id note_a \<in> hit_id ` set (results (body (memory_search demo_env demo_table demo_search_request)))
   \<and> archived note_a = Some False"
proof -
  have b: "note_b \<in> set demo_table" and a: "note_a \<in> set demo_table"
    by (simp_all add: demo_table_def)
  have arch: "archived note_b = Some True" by (simp add: note_b_def)
  have ina: "note_id note_a \<in> hit_id ` set [hit_a]"
    "note_id note_a \<in> hit_id ` set (results (body (memory_search demo_env demo_table demo_search_request)))"
    by (simp_all add: demo_memory_search note_a_def hit_a_def)
  note thm_b = archived_notes_never_returned[OF demo_distinct b,
      where pg = demo_ops and query_embedding = "axis 1" and match_workspace_id = ws1
        and match_threshold = "1 / 2" and match_count = "Some 10" and hits = "[hit_a]"
        and env = demo_env and req = demo_search_request]
  note thm_a = archived_notes_never_returned[OF demo_distinct a,
      where pg = demo_ops and query_embedding = "axis 1" and match_workspace_id = ws1
        and match_threshold = "1 / 2" and match_count = "Some 10" and hits = "[hit_a]"
        and env = demo_env and req = demo_search_request]
  from thm_b arch demo_search_notes
  have nb: "note_id note_b \<notin> hit_id ` set [hit_a]
    \<and> note_id note_b \<notin> hit_id ` set (results (body (memory_search demo_env demo_table demo_search_request)))"
    by blast
  from thm_a demo_search_notes ina(1)
  have fa: "archived note_a = Some False" by blast
  show ?thesis
    by (intro conjI) (rule demo_distinct b arch demo_search_notes
        demo_memory_search nb[THEN conjunct1] nb[THEN conjunct2] a ina fa)+
qed



text \<open>
  C5. The cap of the endpoint holds for a limit that is a number, where \<open>match_count\<close> is
  the smaller of the limit and 50, but not for every limit a caller can send: for the
  string \<open>abc\<close> it is NaN, which reaches the store as NULL, and \<open>LIMIT NULL\<close> is no limit.
  On a workspace of sixty matching notes the endpoint answers 200 with sixty results. The
  hybrid search returns no rows to sort or truncate: on the same table it raises 42804.
\<close>

theorem limit_cap_bypassed:
  "match_count_of env (JS_Number (Finite x)) = Inr (Finite (min x 50))
   \<and> match_count_of demo_env (JS_String ''abc'') = Inr NaN
   \<and> json_integer NaN = Inr None
   \<and> length crowd = 60
   \<and> status (memory_search demo_env crowd crowd_request) = 200
   \<and> length (results (body (memory_search demo_env crowd crowd_request))) = 60
   \<and> hybrid_search_memories run custom_plan crowd ''fomc'' (axis 1) ws1 (Some 10) default_bm25_weight
        default_vector_weight 0 = Inl Datatype_Mismatch"
proof -
  have num: "match_count_of env (JS_Number (Finite x)) = Inr (Finite (min x 50))"
    by (simp add: match_count_of_def limit_or_default_def ToNumber_def)
  have null: "json_integer NaN = Inr None"
    by (simp add: json_integer_def)
  have len: "length crowd = 60"
    by (simp add: crowd_def)
  have st: "status (memory_search demo_env crowd crowd_request) = 200"
    and res: "length (results (body (memory_search demo_env crowd crowd_request))) = 60"
    by (simp_all add: crowd_memory_search)
  have hyb: "hybrid_search_memories run custom_plan crowd ''fomc'' (axis 1) ws1 (Some 10) default_bm25_weight
        default_vector_weight 0 = Inl Datatype_Mismatch"
    by (simp add: hybrid_search_raises int4_def)
  from num abc_match_count null len st res hyb show ?thesis by (intro conjI)
qed


text \<open>
  C7. The handler's promise is rejected exactly when the engine rejects with \<open>undefined\<close>
  or \<open>null\<close>: reading \<open>error.message\<close> in the catch clause then throws a TypeError, which
  the caller receives. Without an engine, and for every other rejection, the handler
  returns the empty result, annotated with the \<open>message\<close> property of what was thrown
  (\<open>undefined\<close> for a thrown string); a result of the engine is passed on.
\<close>

theorem memory_recall_type_error:
  "memory_recall (Some silent_engine) ''fomc'' ws1 None
     = Rejected (new_Error ''TypeError''
         ''Cannot read properties of undefined (reading 'message')'')
   \<and> memory_recall (Some null_engine) ''fomc'' ws1 None
     = Rejected (new_Error ''TypeError'' ''Cannot read properties of null (reading 'message')'')
   \<and> memory_recall (Some failing_engine) ''fomc'' ws1 None
     = Fulfilled (empty_result ''fomc'' (Some (JS_String ''database disk image is malformed'')))
   \<and> memory_recall (Some string_engine) ''fomc'' ws1 None
     = Fulfilled (empty_result ''fomc'' (Some JS_Undefined))
   \<and> memory_recall None ''fomc'' ws1 (None :: unit option) = Fulfilled (empty_result ''fomc'' None)
   \<and> memory_recall (Some steady_engine) ''fomc'' ws1 None = steady_engine ''fomc'' ws1 None
   \<and> ((\<exists>e. memory_recall engine q w options = Rejected e)
        \<longleftrightarrow> (\<exists>recall. engine = Some recall
               \<and> (recall q w options = Rejected JS_Undefined
                  \<or> recall q w options = Rejected JS_Null)))"
proof -
  have g: "get_message e = None \<longleftrightarrow> e = JS_Undefined \<or> e = JS_Null" for e
    by (cases e) simp_all
  have general: "(\<exists>e. memory_recall engine q w options = Rejected e)
        \<longleftrightarrow> (\<exists>recall. engine = Some recall
               \<and> (recall q w options = Rejected JS_Undefined
                  \<or> recall q w options = Rejected JS_Null))"
  proof (cases engine)
    case None
    then show ?thesis by (simp add: memory_recall_def)
  next
    case (Some recall)
    show ?thesis
    proof (cases "recall q w options")
      case (Fulfilled r)
      with Some show ?thesis by (simp add: memory_recall_def)
    next
      case (Rejected e)
      with Some g[of e] show ?thesis
        by (cases "get_message e") (auto simp: memory_recall_def)
    qed
  qed
  have concrete: "memory_recall (Some silent_engine) ''fomc'' ws1 None
     = Rejected (new_Error ''TypeError''
         ''Cannot read properties of undefined (reading 'message')'')"
    "memory_recall (Some null_engine) ''fomc'' ws1 None
     = Rejected (new_Error ''TypeError'' ''Cannot read properties of null (reading 'message')'')"
    "memory_recall (Some failing_engine) ''fomc'' ws1 None
     = Fulfilled (empty_result ''fomc'' (Some (JS_String ''database disk image is malformed'')))"
    "memory_recall (Some string_engine) ''fomc'' ws1 None
     = Fulfilled (empty_result ''fomc'' (Some JS_Undefined))"
    "memory_recall None ''fomc'' ws1 (None :: unit option) = Fulfilled (empty_result ''fomc'' None)"
    "memory_recall (Some steady_engine) ''fomc'' ws1 None = steady_engine ''fomc'' ws1 None"
    by (simp_all add: memory_recall_def silent_engine_def null_engine_def failing_engine_def
        string_engine_def steady_engine_def empty_result_def new_Error_def)
  from concrete general show ?thesis by (intro conjI)
qed

text \<open>
  C8. \<open>validateIPC\<close> throws exactly when the schema rejects the input, and then the
  message starts with \<open>Invalid\<close>, the context and a colon; otherwise it returns the data
  the schema parsed, which for a string schema is the input itself. The workspace id
  schema accepts exactly the strings of UUID shape, and the memory query schema exactly
  the strings of 1 to 2000 characters.
\<close>

theorem validateIPC_rejects_invalid_input:
  "((\<exists>e. validateIPC schema data ctx = Throws e) \<longleftrightarrow> (\<exists>issues. schema data = Inl issues))
   \<and> (\<forall>issues. schema data = Inl issues \<longrightarrow>
        (\<exists>details. validateIPC schema data ctx
           = Throws \<lparr>message = ''Invalid '' @ ctx @ '': '' @ details\<rparr>))
   \<and> (\<forall>d. schema data = Inr d \<longrightarrow> validateIPC schema data ctx = Returns d)
   \<and> (\<forall>checks s. validateIPC (z_string checks) data ctx = Returns s \<longrightarrow> data = JS_String s)
   \<and> ((\<exists>w. validateIPC WorkspaceIdSchema data ctx = Returns w)
        \<longleftrightarrow> (\<exists>s. data = JS_String s \<and> uuid_pattern s))
   \<and> ((\<exists>q. validateIPC MemoryQuerySchema data ctx = Returns q)
        \<longleftrightarrow> (\<exists>s. data = JS_String s \<and> 1 \<le> length s \<and> length s \<le> 2000))"
proof -
  have a: "(\<exists>e. validateIPC schema data ctx = Throws e) \<longleftrightarrow> (\<exists>issues. schema data = Inl issues)"
    by (auto simp: validateIPC_def split: sum.splits)
  have b: "\<forall>issues. schema data = Inl issues \<longrightarrow>
        (\<exists>details. validateIPC schema data ctx
           = Throws \<lparr>message = ''Invalid '' @ ctx @ '': '' @ details\<rparr>)"
    by (auto simp: validateIPC_def)
  have c: "\<forall>d. schema data = Inr d \<longrightarrow> validateIPC schema data ctx = Returns d"
    by (simp add: validateIPC_def)
  have d: "\<forall>checks s. validateIPC (z_string checks) data ctx = Returns s \<longrightarrow> data = JS_String s"
    by (simp add: validateIPC_Returns z_string_accepts)
  have e: "(\<exists>w. validateIPC WorkspaceIdSchema data ctx = Returns w)
        \<longleftrightarrow> (\<exists>s. data = JS_String s \<and> uuid_pattern s)"
    by (auto simp: validateIPC_Returns WorkspaceIdSchema_def z_string_accepts map_filter_simps
        split: if_splits)
  have chk: "List.map_filter (check_issue s)
        [Min 1 ''String must contain at least 1 character(s)'',
         Max 2000 ''String must contain at most 2000 character(s)''] = []
      \<longleftrightarrow> 1 \<le> length s \<and> length s \<le> 2000" for s
    by (cases s) (auto simp: map_filter_simps)
  have f: "(\<exists>q. validateIPC MemoryQuerySchema data ctx = Returns q)
        \<longleftrightarrow> (\<exists>s. data = JS_String s \<and> 1 \<le> length s \<and> length s \<le> 2000)"
  proof
    assume "\<exists>q. validateIPC MemoryQuerySchema data ctx = Returns q"
    then obtain q where "MemoryQuerySchema data = Inr q" by (auto simp: validateIPC_Returns)
    then have "data = JS_String q \<and> List.map_filter (check_issue q)
        [Min 1 ''String must contain at least 1 character(s)'',
         Max 2000 ''String must contain at most 2000 character(s)''] = []"
      unfolding MemoryQuerySchema_def z_string_accepts .
    with chk[of q] show "\<exists>s. data = JS_String s \<and> 1 \<le> length s \<and> length s \<le> 2000"
      by blast
  next
    assume "\<exists>s. data = JS_String s \<and> 1 \<le> length s \<and> length s \<le> 2000"
    then obtain s where s: "data = JS_String s" "1 \<le> length s \<and> length s \<le> 2000" by blast
    with chk[of s] have "MemoryQuerySchema data = Inr s"
      unfolding MemoryQuerySchema_def z_string_accepts by blast
    then show "\<exists>q. validateIPC MemoryQuerySchema data ctx = Returns q"
      by (auto simp: validateIPC_Returns)
  qed
  from a b c d e f show ?thesis by blast
qed

theorem validateIPC_rejects_invalid_input_witness:
  "WorkspaceIdSchema (JS_String ''not-a-uuid'') = Inl [\<lparr>path = [], issue_message = ''Invalid uuid''\<rparr>]
   \<and> (\<exists>details. validateIPC WorkspaceIdSchema (JS_String ''not-a-uuid'') ''workspace ID''
          = Throws \<lparr>message = ''Invalid workspace ID: '' @ details\<rparr>)
   \<and> validateIPC WorkspaceIdSchema (JS_String ''not-a-uuid'') ''workspace ID''
       = Throws \<lparr>message = ''Invalid workspace ID: : Invalid uuid''\<rparr>
   \<and> WorkspaceIdSchema (JS_String ''550e8400-e29b-41d4-a716-446655440000'')
       = Inr ''550e8400-e29b-41d4-a716-446655440000''
   \<and> validateIPC WorkspaceIdSchema (JS_String ''550e8400-e29b-41d4-a716-446655440000'')
        ''workspace ID'' = Returns ''550e8400-e29b-41d4-a716-446655440000''
   \<and> \<not> (\<exists>q. validateIPC MemoryQuerySchema (JS_String []) ''memory query'' = Returns q)
   \<and> \<not> (\<exists>q. validateIPC MemoryQuerySchema (JS_String (replicate 2001 CHR ''a'')) ''memory query''
            = Returns q)"
proof -
  have bad: "WorkspaceIdSchema (JS_String ''not-a-uuid'')
      = Inl [\<lparr>path = [], issue_message = ''Invalid uuid''\<rparr>]"
    by (simp add: WorkspaceIdSchema_def z_string_def map_filter_simps not_uuid_demo)
  have good: "WorkspaceIdSchema (JS_String ''550e8400-e29b-41d4-a716-446655440000'')
      = Inr ''550e8400-e29b-41d4-a716-446655440000''"
    by (simp add: WorkspaceIdSchema_def z_string_def map_filter_simps uuid_demo)
  note w1 = validateIPC_rejects_invalid_input[of WorkspaceIdSchema "JS_String ''not-a-uuid''"
      "''workspace ID''"]
  from w1[THEN conjunct2, THEN conjunct1, rule_format, OF bad]
  have t: "\<exists>details. validateIPC WorkspaceIdSchema (JS_String ''not-a-uuid'') ''workspace ID''
          = Throws \<lparr>message = ''Invalid workspace ID: '' @ details\<rparr>"
    by simp
  note w2 = validateIPC_rejects_invalid_input[of WorkspaceIdSchema
      "JS_String ''550e8400-e29b-41d4-a716-446655440000''" "''workspace ID''"]
  from w2[THEN conjunct2, THEN conjunct2, THEN conjunct1, rule_format, OF good]
  have r: "validateIPC WorkspaceIdSchema (JS_String ''550e8400-e29b-41d4-a716-446655440000'')
        ''workspace ID'' = Returns ''550e8400-e29b-41d4-a716-446655440000''" .
  note w3 = validateIPC_rejects_invalid_input[of MemoryQuerySchema "JS_String []"
      "''memory query''"]
  from w3[THEN conjunct2, THEN conjunct2, THEN conjunct2, THEN conjunct2, THEN conjunct2]
  have q1: "\<not> (\<exists>q. validateIPC MemoryQuerySchema (JS_String []) ''memory query'' = Returns q)"
    by simp
  note w4 = validateIPC_rejects_invalid_input[of MemoryQuerySchema
      "JS_String (replicate 2001 CHR ''a'')" "''memory query''"]
  from w4[THEN conjunct2, THEN conjunct2, THEN conjunct2, THEN conjunct2, THEN conjunct2]
  have q2: "\<not> (\<exists>q. validateIPC MemoryQuerySchema (JS_String (replicate 2001 CHR ''a''))
      ''memory query'' = Returns q)"
    by simp
  have exact: "validateIPC WorkspaceIdSchema (JS_String ''not-a-uuid'') ''workspace ID''
       = Throws \<lparr>message = ''Invalid workspace ID: : Invalid uuid''\<rparr>"
    by (simp add: validateIPC_def bad)
  show ?thesis
    by (intro conjI) (rule bad t exact good r q1 q2)+
qed

text \<open>
  C9, as the code has it. The type validation of memory-update accepts the six values of
  its own list \<open>validTypes\<close>: a request with a note id is answered with the 400 response
  \<open>Invalid memory_type\<close> exactly when its \<open>memoryType\<close> is a non-empty string outside
  insight, rule, warning, todo, bug and profile\_change.
\<close>

theorem memory_type_validation:
  assumes "truthy (noteId r)" and "verb \<noteq> OPTIONS"
  shows "fst (memory_update env tbl (Request verb (Inr r)))
           = Response 400 (Error_Only
               ''Invalid memory_type. Must be one of: insight, rule, warning, todo, bug, profile_change'')
         \<longleftrightarrow> (\<exists>s. memoryType r = Val s \<and> s \<noteq> []
                  \<and> s \<notin> {''insight'', ''rule'', ''warning'', ''todo'', ''bug'', ''profile_change''})"
proof -
  let ?bad = "truthy (memoryType r) \<and> \<not> array_includes validTypes (memoryType r)"
  have bad: "?bad \<longleftrightarrow> (\<exists>s. memoryType r = Val s \<and> s \<noteq> []
                  \<and> s \<notin> {''insight'', ''rule'', ''warning'', ''todo'', ''bug'', ''profile_change''})"
    by (cases "memoryType r") (auto simp: validTypes_def)
  have other: "fst (fetch_stage env tbl r i) \<noteq> Response 400 (Error_Only msg)" for i msg
    by (auto simp: fetch_stage_def build_stage_def update_stage_def
        split: list.splits option.splits prod.splits)
  have imp: "''Invalid importance. Must be one of: '' @ join '', '' validImportance
      \<noteq> ''Invalid memory_type. Must be one of: insight, rule, warning, todo, bug, profile_change''"
    by (simp add: validImportance_def)
  show ?thesis
  proof (cases ?bad)
    case True
    with assms bad show ?thesis
      by (simp add: memory_update_def update_validated_def join_validTypes)
  next
    case False
    with assms bad other imp show ?thesis
      by (auto simp: memory_update_def update_validated_def)
  qed
qed

theorem memory_type_validation_witness:
  "truthy (noteId ((bare_request (note_id note_rule))\<lparr>memoryType := Val ''observation''\<rparr>))
   \<and> POST \<noteq> OPTIONS
   \<and> fst (memory_update demo_env [note_rule]
        (Request POST (Inr ((bare_request (note_id note_rule))\<lparr>memoryType := Val ''observation''\<rparr>))))
      = Response 400 (Error_Only
          ''Invalid memory_type. Must be one of: insight, rule, warning, todo, bug, profile_change'')
   \<and> fst (memory_update demo_env [note_rule]
        (Request POST (Inr ((bare_request (note_id note_rule))\<lparr>memoryType := Val ''rule''\<rparr>))))
      \<noteq> Response 400 (Error_Only
          ''Invalid memory_type. Must be one of: insight, rule, warning, todo, bug, profile_change'')"
proof -
  have h1: "truthy (noteId ((bare_request (note_id note_rule))\<lparr>memoryType := Val ''observation''\<rparr>))"
    and h1': "truthy (noteId ((bare_request (note_id note_rule))\<lparr>memoryType := Val ''rule''\<rparr>))"
    by (simp_all add: bare_request_def note_rule_def)
  have h2: "POST \<noteq> OPTIONS" by simp
  from memory_type_validation[OF h1 h2, of demo_env "[note_rule]"]
  have a: "fst (memory_update demo_env [note_rule]
        (Request POST (Inr ((bare_request (note_id note_rule))\<lparr>memoryType := Val ''observation''\<rparr>))))
      = Response 400 (Error_Only
          ''Invalid memory_type. Must be one of: insight, rule, warning, todo, bug, profile_change'')"
    by (simp add: bare_request_def)
  from memory_type_validation[OF h1' h2, of demo_env "[note_rule]"]
  have b: "fst (memory_update demo_env [note_rule]
        (Request POST (Inr ((bare_request (note_id note_rule))\<lparr>memoryType := Val ''rule''\<rparr>))))
      \<noteq> Response 400 (Error_Only
          ''Invalid memory_type. Must be one of: insight, rule, warning, todo, bug, profile_change'')"
    by (simp add: bare_request_def)
  from h1 h2 a b show ?thesis by blast
qed

text \<open>
  C9 as stated fails: \<open>observation\<close>, a value of the enum, is rejected as invalid, and
  \<open>todo\<close>, a value outside the enum, is accepted and written.
\<close>

theorem observation_rejected:
  "memory_update demo_env [note_rule]
     (Request POST (Inr ((bare_request (note_id note_rule))\<lparr>memoryType := Val ''observation''\<rparr>)))
   = (Response 400
        (Error_Only ''Invalid memory_type. Must be one of: insight, rule, warning, todo, bug, profile_change''),
      [note_rule])
   \<and> fst (memory_update demo_env [note_rule]
        (Request POST (Inr ((bare_request (note_id note_rule))\<lparr>memoryType := Val ''todo''\<rparr>))))
     = Response 200
         (Success (note_rule\<lparr>memory_type := Some ''todo'', updated_at := Some 1000\<rparr>)
            [''memory_type''])"
proof -
  have e: "configured demo_env" "now demo_env = 1000"
    "\<And>i. fetch_fails demo_env i = False" "\<And>i u. update_fails demo_env i u = False"
    by (simp_all add: demo_env_def configured_def)
  show ?thesis
    by (simp add: memory_update_def update_validated_def fetch_stage_def build_stage_def
        update_stage_def content_step_def other_steps_def apply_update_def update_rows_def
        assign_def empty_update_def bare_request_def e demo_client validTypes_def
        note_rule_def note_a_def blank_note_def)
qed

end
